theory Spec2Isabelle
  imports Complex_Main "HOL-Library.Char_ord" "HOL-Library.List_Lexorder"
begin

section \<open>Numbers, pressure groups and errors\<close>

text \<open>
  The calculation core of \<^verbatim>\<open>src/js/script.js\<close> over its three U.S. Navy tables.
  The file holds two revisions of the core; the later one, lines 520--963, is the one
  modelled here. The two agree except for table 2 and \<^verbatim>\<open>getNewPressureGroup\<close>;
  the Nitrox functions are in the later one only.

  A finite JavaScript number is a \<^typ>\<open>real\<close>: the table lookups only compare numbers
  and add integers, which is exact on doubles. The callers reject a \<^verbatim>\<open>NaN\<close> depth
  (\<^verbatim>\<open>isNaN(depth)\<close>) before they call the core, so a depth is a finite number.
  A pressure group is the string the source uses (\<^verbatim>\<open>'A'\<close> .. \<^verbatim>\<open>'K'\<close>), ordered
  alphabetically; \<^verbatim>\<open>null\<close> is \<^term>\<open>None\<close>.
\<close>

type_synonym pgroup = string

datatype error =
  InvalidInputCombination  \<comment> \<open>\<^verbatim>\<open>throw new Error("Invalid input combination. ...")\<close>\<close>
  | TypeError              \<comment> \<open>destructuring \<^verbatim>\<open>undefined\<close>: a table has no such key\<close>

section \<open>Table 1: no-decompression limits and repetitive group designation\<close>

text \<open>
  \<^verbatim>\<open>navyTable1\<close>: depth in feet, then \<^verbatim>\<open>[max NDL, {minutes: group}]\<close>. The keys of
  the object literal are integers, so \<^verbatim>\<open>Object.keys\<close> lists them in ascending
  order, which is the order written here.
\<close>

definition navyTable1 :: "(real \<times> real \<times> (real \<times> pgroup) list) list" where
  "navyTable1 = [
    (10, 60 * 5, [(60, ''A''), (120, ''B''), (210, ''C''), (300, ''D'')]),
    (15, 60 * 5, [(35, ''A''), (70, ''B''), (110, ''C''), (160, ''D''), (225, ''E''), (350, ''F'')]),
    (20, 325, [(25, ''A''), (50, ''B''), (75, ''C''), (100, ''D''), (135, ''E''), (180, ''F''),
               (240, ''G''), (325, ''H'')]),
    (25, 245, [(20, ''A''), (35, ''B''), (55, ''C''), (75, ''D''), (100, ''E''), (125, ''F''),
               (160, ''G''), (195, ''H''), (245, ''I'')]),
    (30, 205, [(15, ''A''), (30, ''B''), (45, ''C''), (60, ''D''), (75, ''E''), (95, ''F''),
               (120, ''G''), (145, ''H''), (170, ''I''), (205, ''J'')]),
    (35, 160, [(5, ''A''), (15, ''B''), (25, ''C''), (40, ''D''), (50, ''E''), (60, ''F''),
               (80, ''G''), (100, ''H''), (120, ''I''), (140, ''J''), (160, ''K'')]),
    (40, 130, [(5, ''A''), (15, ''B''), (25, ''C''), (30, ''D''), (40, ''E''), (50, ''F''),
               (70, ''G''), (80, ''H''), (100, ''I''), (110, ''J''), (130, ''K'')]),
    (50, 70, [(10, ''B''), (15, ''C''), (25, ''D''), (30, ''E''), (40, ''F''), (50, ''G''),
              (60, ''H''), (70, ''I'')]),
    (60, 50, [(10, ''B''), (15, ''C''), (20, ''D''), (25, ''E''), (30, ''F''), (40, ''G''),
              (50, ''H'')]),
    (70, 40, [(5, ''B''), (10, ''C''), (15, ''D''), (20, ''E''), (30, ''F''), (35, ''G''),
              (40, ''H'')]),
    (80, 30, [(5, ''B''), (10, ''C''), (15, ''D''), (20, ''E''), (25, ''F''), (30, ''G'')]),
    (90, 25, [(5, ''B''), (10, ''C''), (12, ''D''), (15, ''E''), (20, ''F''), (25, ''G'')]),
    (100, 20, [(5, ''B''), (7, ''C''), (10, ''D''), (15, ''E''), (20, ''F'')]),
    (110, 15, [(5, ''B''), (10, ''C''), (13, ''D''), (15, ''E'')]),
    (120, 10, [(5, ''C''), (10, ''D'')]),
    (130, 5, [(5, ''D'')])]"

subsection \<open>findClosestDepth\<close>

text \<open>The \<^verbatim>\<open>for\<close> loop of \<^verbatim>\<open>findClosestDepth\<close>, with its fallback \<^verbatim>\<open>-1\<close>.\<close>

fun firstDepthAtLeast :: "real \<Rightarrow> real list \<Rightarrow> real" where
  "firstDepthAtLeast depth [] = -1"
| "firstDepthAtLeast depth (d # ds) = (if depth \<le> d then d else firstDepthAtLeast depth ds)"

definition findClosestDepth :: "real \<Rightarrow> real" where
  "findClosestDepth depth =
     (let depths = map fst navyTable1 in
      if depth < hd depths then hd depths
      else if depth > last depths then -1
      else firstDepthAtLeast depth depths)"

subsection \<open>getSingleDiveInfo\<close>

text \<open>
  The \<^verbatim>\<open>message\<close> field is a template literal or a fixed sentence; it is kept as
  the name of the sentence and the values it interpolates. A cell of table 3 is a number
  of minutes or the string \<^verbatim>\<open>'N/L'\<close>.
\<close>

datatype cell = Minutes real | NL

datatype message =
  DepthExceedsTable                   \<comment> \<open>"Depth exceeds maximum table depth of 130 feet."\<close>
  | BottomTimeExceedsNDL real real    \<comment> \<open>"Bottom time exceeds the no-decompression limit of ..."\<close>
  | LimitAndGroup real "pgroup option"  \<comment> \<open>"No-decompression limit: ... Pressure group: ..."\<close>
  | InvalidDepthOrGroup               \<comment> \<open>"Invalid depth or pressure group for repetitive dive."\<close>
  | NotRecommended                    \<comment> \<open>"Repetitive dive not recommended at this depth ..."\<close>
  | ResidualAndLimit cell cell        \<comment> \<open>"Residual nitrogen time: ... Adjusted ... limit: ..."\<close>

text \<open>Both result objects carry \<^verbatim>\<open>isExceeded\<close> and \<^verbatim>\<open>message\<close>.\<close>

record diveInfo =
  isExceeded :: bool
  message :: message

record singleDiveInfo = diveInfo +
  noDecoLimit :: real
  pressureGroup :: "pgroup option"

text \<open>
  The loop over \<^verbatim>\<open>times\<close>: the first threshold with \<^verbatim>\<open>bottomTime <= times[i]\<close>
  gives \<^verbatim>\<open>timeGroups[times[i]]\<close>; with no such threshold the group stays \<^verbatim>\<open>null\<close>.
\<close>

fun firstGroupAtLeast :: "(real \<times> pgroup) list \<Rightarrow> real \<Rightarrow> real list \<Rightarrow> pgroup option" where
  "firstGroupAtLeast timeGroups bottomTime [] = None"
| "firstGroupAtLeast timeGroups bottomTime (t # ts) =
     (if bottomTime \<le> t then map_of timeGroups t
      else firstGroupAtLeast timeGroups bottomTime ts)"

text \<open>
  \<^verbatim>\<open>const [maxNDL, timeGroups] = navyTable1[tableDepth]\<close> throws a TypeError when the
  table has no such key; \<^verbatim>\<open>times\<close> is the numerically sorted list of thresholds.
\<close>

definition getSingleDiveInfo :: "real \<Rightarrow> real \<Rightarrow> error + singleDiveInfo" where
  "getSingleDiveInfo depth bottomTime =
     (let tableDepth = findClosestDepth depth in
      if tableDepth = -1 then
        Inr \<lparr>isExceeded = True, message = DepthExceedsTable,
             noDecoLimit = 0, pressureGroup = None\<rparr>
      else
        case map_of navyTable1 tableDepth of
          None \<Rightarrow> Inl TypeError
        | Some (maxNDL, timeGroups) \<Rightarrow>
            if bottomTime > maxNDL then
              Inr \<lparr>isExceeded = True, message = BottomTimeExceedsNDL maxNDL tableDepth,
                   noDecoLimit = maxNDL, pressureGroup = None\<rparr>
            else
              let times = sort (map fst timeGroups);
                  pg = firstGroupAtLeast timeGroups bottomTime times
              in Inr \<lparr>isExceeded = False, message = LimitAndGroup maxNDL pg,
                      noDecoLimit = maxNDL, pressureGroup = pg\<rparr>)"

subsection \<open>getFinalPressureGroup\<close>


section \<open>Table 2: surface interval credit\<close>

text \<open>
  \<^verbatim>\<open>navyTable2\<close>: current group, then \<^verbatim>\<open>{new group: [min time, max time]}\<close>. The
  keys are not integers, so \<^verbatim>\<open>Object.entries\<close> lists them in the order written.
\<close>

definition navyTable2 :: "(pgroup \<times> (string \<times> string \<times> string) list) list" where
  "navyTable2 = [
    (''K'', [
       (''K'', ''0:10'', ''0:28''), (''J'', ''0:29'', ''0:49''), (''I'', ''0:50'', ''1:11''),
       (''H'', ''1:12'', ''1:35''), (''G'', ''1:36'', ''2:03''), (''F'', ''2:04'', ''2:38''),
       (''E'', ''2:39'', ''3:21''), (''D'', ''3:22'', ''4:19''), (''C'', ''4:20'', ''5:48''),
       (''B'', ''5:49'', ''8:58''), (''A'', ''8:59'', ''11:59''), (''None'', ''12:00'', ''--'')]),
    (''J'', [
       (''J'', ''0:10'', ''0:31''), (''I'', ''0:32'', ''0:54''), (''H'', ''0:55'', ''1:19''),
       (''G'', ''1:20'', ''1:47''), (''F'', ''1:48'', ''2:20''), (''E'', ''2:21'', ''3:04''),
       (''D'', ''3:05'', ''4:02''), (''C'', ''4:03'', ''5:40''), (''B'', ''5:41'', ''8:50''),
       (''A'', ''8:51'', ''11:59''), (''None'', ''12:00'', ''--'')]),
    (''I'', [
       (''I'', ''0:10'', ''0:33''), (''H'', ''0:34'', ''0:59''), (''G'', ''1:00'', ''1:29''),
       (''F'', ''1:30'', ''2:02''), (''E'', ''2:03'', ''2:44''), (''D'', ''2:45'', ''3:43''),
       (''C'', ''3:44'', ''5:12''), (''B'', ''5:13'', ''8:21''), (''A'', ''8:22'', ''11:59''),
       (''None'', ''12:00'', ''--'')]),
    (''H'', [
       (''H'', ''0:10'', ''0:36''), (''G'', ''0:37'', ''1:06''), (''F'', ''1:07'', ''1:41''),
       (''E'', ''1:42'', ''2:23''), (''D'', ''2:24'', ''3:20''), (''C'', ''3:21'', ''4:49''),
       (''B'', ''4:50'', ''7:59''), (''A'', ''8:00'', ''11:59''), (''None'', ''12:00'', ''--'')]),
    (''G'', [
       (''G'', ''0:10'', ''0:40''), (''F'', ''0:41'', ''1:15''), (''E'', ''1:16'', ''1:59''),
       (''D'', ''2:00'', ''2:58''), (''C'', ''2:59'', ''4:25''), (''B'', ''4:26'', ''7:35''),
       (''A'', ''7:36'', ''11:59''), (''None'', ''12:00'', ''--'')]),
    (''F'', [
       (''F'', ''0:10'', ''0:45''), (''E'', ''0:46'', ''1:29''), (''D'', ''1:30'', ''2:28''),
       (''C'', ''2:29'', ''3:57''), (''B'', ''3:58'', ''7:05''), (''A'', ''7:06'', ''11:59''),
       (''None'', ''12:00'', ''--'')]),
    (''E'', [
       (''E'', ''0:10'', ''0:54''), (''D'', ''0:55'', ''1:57''), (''C'', ''1:58'', ''3:24''),
       (''B'', ''3:25'', ''6:34''), (''A'', ''6:35'', ''11:59''), (''None'', ''12:00'', ''--'')]),
    (''D'', [
       (''D'', ''0:10'', ''1:09''), (''C'', ''1:10'', ''2:38''), (''B'', ''2:39'', ''5:48''),
       (''A'', ''5:49'', ''11:59''), (''None'', ''12:00'', ''--'')]),
    (''C'', [
       (''C'', ''0:10'', ''1:39''), (''B'', ''1:40'', ''4:49''), (''A'', ''4:50'', ''11:59''),
       (''None'', ''12:00'', ''--'')]),
    (''B'', [
       (''B'', ''0:10'', ''3:20''), (''A'', ''3:21'', ''11:59''), (''None'', ''12:00'', ''--'')]),
    (''A'', [
       (''A'', ''0:10'', ''11:59''), (''None'', ''12:00'', ''--'')])]"

subsection \<open>parseTimeToMinutes\<close>

text \<open>
  The minutes compared in \<^verbatim>\<open>getNewPressureGroup\<close> are a finite number, the
  \<^verbatim>\<open>Infinity\<close> the source writes for the open end \<^verbatim>\<open>'--'\<close>, or \<^verbatim>\<open>NaN\<close>.
  A comparison with \<^verbatim>\<open>NaN\<close> is false.
\<close>

datatype jsnum = Num real | Infinity | NaN

fun js_ge :: "jsnum \<Rightarrow> jsnum \<Rightarrow> bool" where
  "js_ge (Num a) (Num b) = (a \<ge> b)"
| "js_ge Infinity (Num b) = True"
| "js_ge Infinity Infinity = True"
| "js_ge _ _ = False"

fun js_lt :: "jsnum \<Rightarrow> jsnum \<Rightarrow> bool" where
  "js_lt (Num a) (Num b) = (a < b)"
| "js_lt (Num a) Infinity = True"
| "js_lt _ _ = False"

text \<open>
  \<^verbatim>\<open>timeStr.split(':')\<close>: the pieces between the colons; the empty string gives one
  empty piece.
\<close>

fun split :: "string \<Rightarrow> string list" where
  "split [] = [[]]"
| "split (c # cs) =
     (if c = CHR '':'' then [] # split cs
      else case split cs of [] \<Rightarrow> [[c]] | w # ws \<Rightarrow> (c # w) # ws)"

text \<open>
  \<^verbatim>\<open>Number\<close> on the pieces of an \<^verbatim>\<open>"h:mm"\<close> string, the format the function
  documents and the table uses: a run of decimal digits is its value and the empty string
  is 0. Every other string is \<^term>\<open>None\<close> here, which stands for \<^verbatim>\<open>NaN\<close>; the
  signs, fractions, exponents, blanks and radix prefixes that JavaScript also converts are
  not represented.
\<close>

definition digitValue :: "char \<Rightarrow> nat option" where
  "digitValue c =
     (let n = (of_char c :: nat) in if 48 \<le> n \<and> n \<le> 57 then Some (n - 48) else None)"

fun digitsValue :: "nat \<Rightarrow> string \<Rightarrow> nat option" where
  "digitsValue acc [] = Some acc"
| "digitsValue acc (c # cs) =
     (case digitValue c of None \<Rightarrow> None | Some v \<Rightarrow> digitsValue (acc * 10 + v) cs)"

definition Number :: "string \<Rightarrow> real option" where
  "Number s = map_option real (digitsValue 0 s)"

text \<open>
  \<^verbatim>\<open>const [hours, minutes] = ...; return hours * 60 + minutes\<close>. With a single piece
  \<^verbatim>\<open>minutes\<close> is \<^verbatim>\<open>undefined\<close> and the sum is \<^verbatim>\<open>NaN\<close>; pieces after the
  second are ignored.
\<close>

definition parseTimeToMinutes :: "string \<Rightarrow> jsnum" where
  "parseTimeToMinutes timeStr =
     (case map Number (split timeStr) of
        Some hours # Some minutes # _ \<Rightarrow> Num (hours * 60 + minutes)
      | _ \<Rightarrow> NaN)"

subsection \<open>getNewPressureGroup\<close>

text \<open>The test of the loop body: the surface interval lies in the entry's range.\<close>

definition inRange :: "jsnum \<Rightarrow> string \<times> string \<times> string \<Rightarrow> bool" where
  "inRange surfaceIntervalMinutes entry =
     (case entry of (newGroup, minTime, maxTime) \<Rightarrow>
        let minMinutes = parseTimeToMinutes minTime;
            maxMinutes = (if maxTime = ''--'' then Infinity else parseTimeToMinutes maxTime)
        in js_ge surfaceIntervalMinutes minMinutes \<and> js_lt surfaceIntervalMinutes maxMinutes)"

text \<open>
  The loop over \<^verbatim>\<open>Object.entries(navyTable2[currentGroup])\<close>: the first entry whose
  range holds the interval decides, \<^verbatim>\<open>'None'\<close> giving \<^verbatim>\<open>null\<close>; with no such
  entry \<^verbatim>\<open>newGroup\<close> stays \<^verbatim>\<open>null\<close>. A group that is not a key of the table
  returns \<^verbatim>\<open>null\<close> at once. (A name the table object only inherits, such as
  \<^verbatim>\<open>toString\<close>, passes that test, but has no entries of its own: the result is
  \<^verbatim>\<open>null\<close> all the same.)
\<close>

fun scanRanges :: "jsnum \<Rightarrow> (string \<times> string \<times> string) list \<Rightarrow> pgroup option" where
  "scanRanges surfaceIntervalMinutes [] = None"
| "scanRanges surfaceIntervalMinutes (entry # rest) =
     (if inRange surfaceIntervalMinutes entry
      then (if fst entry = ''None'' then None else Some (fst entry))
      else scanRanges surfaceIntervalMinutes rest)"

definition getNewPressureGroup :: "pgroup \<Rightarrow> string \<Rightarrow> pgroup option" where
  "getNewPressureGroup currentGroup surfaceInterval =
     (case map_of navyTable2 currentGroup of
        None \<Rightarrow> None
      | Some ranges \<Rightarrow> scanRanges (parseTimeToMinutes surfaceInterval) ranges)"

section \<open>Table 3: residual nitrogen times\<close>

text \<open>\<^verbatim>\<open>navyTable3\<close>: depth, then \<^verbatim>\<open>{group: [RNT, ANDL]}\<close>.\<close>

definition navyTable3 :: "(real \<times> (pgroup \<times> cell \<times> cell) list) list" where
  "navyTable3 = [
    (10, [
       (''A'', Minutes 39, NL), (''B'', Minutes 88, NL), (''C'', Minutes 159, NL),
       (''D'', Minutes 279, NL), (''E'', NL, NL), (''F'', NL, NL), (''G'', NL, NL),
       (''H'', NL, NL), (''I'', NL, NL), (''J'', NL, NL), (''K'', NL, NL)]),
    (20, [
       (''A'', Minutes 18, NL), (''B'', Minutes 39, NL), (''C'', Minutes 62, NL),
       (''D'', Minutes 88, NL), (''E'', Minutes 120, NL), (''F'', Minutes 159, NL),
       (''G'', Minutes 208, NL), (''H'', Minutes 279, NL), (''I'', Minutes 399, NL),
       (''J'', NL, NL), (''K'', NL, NL)]),
    (30, [
       (''A'', Minutes 12, Minutes 193), (''B'', Minutes 25, Minutes 180),
       (''C'', Minutes 39, Minutes 166), (''D'', Minutes 54, Minutes 151),
       (''E'', Minutes 70, Minutes 135), (''F'', Minutes 88, Minutes 117),
       (''G'', Minutes 109, Minutes 96), (''H'', Minutes 132, Minutes 73),
       (''I'', Minutes 159, Minutes 46), (''J'', Minutes 190, Minutes 15),
       (''K'', NL, Minutes 0)]),
    (40, [
       (''A'', Minutes 7, Minutes 123), (''B'', Minutes 17, Minutes 113),
       (''C'', Minutes 25, Minutes 105), (''D'', Minutes 37, Minutes 93),
       (''E'', Minutes 49, Minutes 81), (''F'', Minutes 61, Minutes 69),
       (''G'', Minutes 73, Minutes 57), (''H'', Minutes 87, Minutes 43),
       (''I'', Minutes 101, Minutes 29), (''J'', Minutes 116, Minutes 14),
       (''K'', Minutes 138, Minutes 0)]),
    (50, [
       (''A'', Minutes 6, Minutes 64), (''B'', Minutes 13, Minutes 57),
       (''C'', Minutes 21, Minutes 49), (''D'', Minutes 29, Minutes 41),
       (''E'', Minutes 38, Minutes 32), (''F'', Minutes 47, Minutes 23),
       (''G'', Minutes 56, Minutes 14), (''H'', Minutes 66, Minutes 4), (''I'', NL, Minutes 0),
       (''J'', NL, Minutes 0), (''K'', NL, Minutes 0)]),
    (60, [
       (''A'', Minutes 5, Minutes 45), (''B'', Minutes 11, Minutes 39),
       (''C'', Minutes 17, Minutes 33), (''D'', Minutes 24, Minutes 26),
       (''E'', Minutes 30, Minutes 20), (''F'', Minutes 36, Minutes 14),
       (''G'', Minutes 44, Minutes 6), (''H'', NL, Minutes 0), (''I'', NL, Minutes 0),
       (''J'', NL, Minutes 0), (''K'', NL, Minutes 0)]),
    (70, [
       (''A'', Minutes 4, Minutes 36), (''B'', Minutes 9, Minutes 31),
       (''C'', Minutes 15, Minutes 25), (''D'', Minutes 20, Minutes 20),
       (''E'', Minutes 26, Minutes 14), (''F'', Minutes 31, Minutes 9),
       (''G'', Minutes 37, Minutes 3), (''H'', NL, Minutes 0), (''I'', NL, Minutes 0),
       (''J'', NL, Minutes 0), (''K'', NL, Minutes 0)]),
    (80, [
       (''A'', Minutes 4, Minutes 26), (''B'', Minutes 8, Minutes 22),
       (''C'', Minutes 13, Minutes 17), (''D'', Minutes 18, Minutes 12),
       (''E'', Minutes 23, Minutes 7), (''F'', Minutes 28, Minutes 2), (''G'', NL, Minutes 0),
       (''H'', NL, Minutes 0), (''I'', NL, Minutes 0), (''J'', NL, Minutes 0),
       (''K'', NL, Minutes 0)]),
    (90, [
       (''A'', Minutes 3, Minutes 22), (''B'', Minutes 7, Minutes 18),
       (''C'', Minutes 11, Minutes 14), (''D'', Minutes 16, Minutes 9),
       (''E'', Minutes 20, Minutes 5), (''F'', Minutes 24, Minutes 1), (''G'', NL, Minutes 0),
       (''H'', NL, Minutes 0), (''I'', NL, Minutes 0), (''J'', NL, Minutes 0),
       (''K'', NL, Minutes 0)]),
    (100, [
       (''A'', Minutes 3, Minutes 17), (''B'', Minutes 7, Minutes 13),
       (''C'', Minutes 10, Minutes 10), (''D'', Minutes 14, Minutes 6),
       (''E'', Minutes 18, Minutes 2), (''F'', NL, Minutes 0), (''G'', NL, Minutes 0),
       (''H'', NL, Minutes 0), (''I'', NL, Minutes 0), (''J'', NL, Minutes 0),
       (''K'', NL, Minutes 0)]),
    (110, [
       (''A'', Minutes 3, Minutes 12), (''B'', Minutes 6, Minutes 9),
       (''C'', Minutes 9, Minutes 6), (''D'', Minutes 12, Minutes 3),
       (''E'', Minutes 15, Minutes 0), (''F'', NL, Minutes 0), (''G'', NL, Minutes 0),
       (''H'', NL, Minutes 0), (''I'', NL, Minutes 0), (''J'', NL, Minutes 0),
       (''K'', NL, Minutes 0)]),
    (120, [
       (''A'', Minutes 3, Minutes 7), (''B'', Minutes 6, Minutes 4),
       (''C'', Minutes 9, Minutes 1), (''D'', NL, Minutes 0), (''E'', NL, Minutes 0),
       (''F'', NL, Minutes 0), (''G'', NL, Minutes 0), (''H'', NL, Minutes 0),
       (''I'', NL, Minutes 0), (''J'', NL, Minutes 0), (''K'', NL, Minutes 0)]),
    (130, [
       (''A'', Minutes 3, Minutes 2), (''B'', NL, Minutes 0), (''C'', NL, Minutes 0),
       (''D'', NL, Minutes 0), (''E'', NL, Minutes 0), (''F'', NL, Minutes 0),
       (''G'', NL, Minutes 0), (''H'', NL, Minutes 0), (''I'', NL, Minutes 0),
       (''J'', NL, Minutes 0), (''K'', NL, Minutes 0)])]"

subsection \<open>getRepetitiveDiveInfo\<close>

record repetitiveDiveInfo = diveInfo +
  residualNitrogenTime :: "cell option"
  adjustedNoDecoLimit :: "cell option"

text \<open>
  The entry \<^verbatim>\<open>navyTable3[tableDepth][pressureGroup]\<close>, when both keys exist. Table 3
  has no row for 15 ft. The parameter \<^verbatim>\<open>pressureGroup\<close> is \<open>pg\<close> here, the name
  being a field of the record above. A group is a key of the table or a string that names
  no property at all; a name the row object only inherits (such as \<^verbatim>\<open>toString\<close>),
  on which the source throws when it destructures the entry, is not represented.
\<close>

definition table3Entry :: "real \<Rightarrow> pgroup \<Rightarrow> (cell \<times> cell) option" where
  "table3Entry tableDepth pg =
     (case map_of navyTable3 tableDepth of
        None \<Rightarrow> None
      | Some row \<Rightarrow> map_of row pg)"

definition getRepetitiveDiveInfo :: "pgroup \<Rightarrow> real \<Rightarrow> repetitiveDiveInfo" where
  "getRepetitiveDiveInfo pg depth =
     (let tableDepth = findClosestDepth depth in
      case (if tableDepth = -1 then None else table3Entry tableDepth pg) of
        None \<Rightarrow>
          \<lparr>isExceeded = True, message = InvalidDepthOrGroup,
           residualNitrogenTime = None, adjustedNoDecoLimit = None\<rparr>
      | Some (rnt, andl) \<Rightarrow>
          if rnt = NL \<or> andl = Minutes 0 then
            \<lparr>isExceeded = True, message = NotRecommended,
             residualNitrogenTime = Some rnt, adjustedNoDecoLimit = Some andl\<rparr>
          else
            \<lparr>isExceeded = False, message = ResidualAndLimit rnt andl,
             residualNitrogenTime = Some rnt, adjustedNoDecoLimit = Some andl\<rparr>)"

section \<open>Nitrox: equivalent air depth\<close>

text \<open>
  \<^verbatim>\<open>calculateEAD\<close> and \<^verbatim>\<open>calculateActualDepthFromEAD\<close> compute with doubles.
  Each arithmetic operation, and the literal \<^verbatim>\<open>0.79\<close>, delivers the exact real
  result rounded to a double; the rounding is the parameter \<open>rnd\<close>. With the identity
  for \<open>rnd\<close> the definitions are the formulas over the reals. The integer literals
  and the arguments are doubles already. A division by zero gives no finite number,
  \<^term>\<open>None\<close>.
\<close>

definition calculateEAD :: "(real \<Rightarrow> real) \<Rightarrow> real \<Rightarrow> real \<Rightarrow> real option" where
  "calculateEAD rnd depth o2Percentage =
     (let n2Fraction = rnd (rnd (100 - o2Percentage) / 100) in
      if rnd 0.79 = 0 then None
      else Some (rnd (rnd (rnd (depth + 10) * rnd (n2Fraction / rnd 0.79)) - 10)))"

definition calculateActualDepthFromEAD :: "(real \<Rightarrow> real) \<Rightarrow> real \<Rightarrow> real \<Rightarrow> real option" where
  "calculateActualDepthFromEAD rnd ead o2Percentage =
     (let divisor = rnd (1 - rnd (o2Percentage / 100)) in
      if divisor = 0 then None
      else Some (rnd (rnd (rnd (rnd (ead + 10) * rnd 0.79) / divisor) - 10)))"

text \<open>
  Rounding to the nearest double: below the overflow threshold the error is at most half
  a unit in the last place, that is a relative error of \<open>2\<^sup>-\<^sup>5\<^sup>3\<close>, or
  \<open>2\<^sup>-\<^sup>1\<^sup>0\<^sup>7\<^sup>5\<close> among the subnormal numbers.
\<close>

definition roundsToDouble :: "(real \<Rightarrow> real) \<Rightarrow> bool" where
  "roundsToDouble rnd \<longleftrightarrow>
     (\<forall>x. \<bar>x\<bar> \<le> 2 ^ 1023 \<longrightarrow> \<bar>rnd x - x\<bar> \<le> max (\<bar>x\<bar> / 2 ^ 53) (1 / 2 ^ 1075))"

section \<open>Dalton's triangle\<close>

text \<open>
  The arithmetic of this function is written over the reals: what is proved about it below
  is which inputs it accepts, not the digits of its results.
\<close>

definition ftToATA :: "real \<Rightarrow> real" where
  "ftToATA feet = 1 + (feet / 33)"

definition ataToFT :: "real \<Rightarrow> real" where
  "ataToFT ata = (ata - 1) * 33"

text \<open>
  \<^verbatim>\<open>parseFloat(x.toFixed(2))\<close>: the nearest multiple of \<open>1/100\<close>, a tie going away
  from zero; from \<open>10\<^sup>2\<^sup>1\<close> on \<^verbatim>\<open>toFixed\<close> prints the number itself. The
  number rounded here is the exact real result; the source rounds the double it computed,
  which can fall on the other side of a tie.
\<close>

definition toFixed2 :: "real \<Rightarrow> real" where
  "toFixed2 x =
     (if \<bar>x\<bar> \<ge> 10 ^ 21 then x
      else sgn x * of_int \<lfloor>\<bar>x\<bar> * 100 + 1 / 2\<rfloor> / 100)"

text \<open>
  The \<^verbatim>\<open>inputs\<close> object: a property that is \<^verbatim>\<open>undefined\<close> is \<^term>\<open>None\<close>.
  The result object has the same three properties and two more; there \<^term>\<open>None\<close> is
  a number that is not finite (\<^verbatim>\<open>NaN\<close> or an infinity), which only a division by
  zero produces and which every later operation of the function keeps.
\<close>

record daltonInputs =
  depth :: "real option"
  fO2 :: "real option"
  pO2 :: "real option"

record daltonResult = daltonInputs +
  pressure :: "real option"
  pN2 :: "real option"

definition divide :: "real \<Rightarrow> real \<Rightarrow> real option" where
  "divide a b = (if b = 0 then None else Some (a / b))"

text \<open>The closing loop: every property that is a number is formatted to two decimals.\<close>

definition formatResult :: "daltonResult \<Rightarrow> daltonResult" where
  "formatResult result =
     \<lparr>depth = map_option toFixed2 (depth result),
      fO2 = map_option toFixed2 (fO2 result),
      pO2 = map_option toFixed2 (pO2 result),
      pressure = map_option toFixed2 (pressure result),
      pN2 = map_option toFixed2 (pN2 result)\<rparr>"

definition calculateDaltonsTriangle :: "daltonInputs \<Rightarrow> error + daltonResult" where
  "calculateDaltonsTriangle inputs =
     (if depth inputs \<noteq> None \<and> fO2 inputs \<noteq> None \<and> pO2 inputs = None then
        let d = the (depth inputs); f = the (fO2 inputs);
            p = ftToATA d
        in Inr (formatResult
             \<lparr>depth = Some d, fO2 = Some f, pO2 = Some (p * f),
              pressure = Some p, pN2 = Some (p * (1 - f))\<rparr>)
      else if fO2 inputs \<noteq> None \<and> pO2 inputs \<noteq> None \<and> depth inputs = None then
        let f = the (fO2 inputs); po = the (pO2 inputs);
            p = divide po f
        in Inr (formatResult
             \<lparr>depth = map_option ataToFT p, fO2 = Some f, pO2 = Some po,
              pressure = p, pN2 = map_option (\<lambda>p. p * (1 - f)) p\<rparr>)
      else if depth inputs \<noteq> None \<and> pO2 inputs \<noteq> None \<and> fO2 inputs = None then
        let d = the (depth inputs); po = the (pO2 inputs);
            p = ftToATA d;
            f = divide po p
        in Inr (formatResult
             \<lparr>depth = Some d, fO2 = f, pO2 = Some po,
              pressure = Some p, pN2 = map_option (\<lambda>f. p * (1 - f)) f\<rparr>)
      else Inl InvalidInputCombination)"

text \<open>
  The number of inputs that are present, as the caller counts them in \<^verbatim>\<open>inputCount\<close>
  before it calls the function.
\<close>

definition presentCount :: "daltonInputs \<Rightarrow> nat" where
  "presentCount inputs =
     (if depth inputs \<noteq> None then 1 else 0) + (if fO2 inputs \<noteq> None then 1 else 0)
     + (if pO2 inputs \<noteq> None then 1 else 0)"

section \<open>Facts about table 1 and the depth lookup\<close>

lemma depths_navyTable1:
  "map fst navyTable1 = [10, 15, 20, 25, 30, 35, 40, 50, 60, 70, 80, 90, 100, 110, 120, 130]"
  by (simp add: navyTable1_def)

lemma firstDepthAtLeast_found:
  "ds \<noteq> [] \<Longrightarrow> d \<le> last ds \<Longrightarrow> firstDepthAtLeast d ds \<in> set ds \<and> d \<le> firstDepthAtLeast d ds"
  by (induction ds) (auto split: if_splits)

lemma firstDepthAtLeast_least:
  "sorted ds \<Longrightarrow> k \<in> set ds \<Longrightarrow> d \<le> k \<Longrightarrow> firstDepthAtLeast d ds \<le> k"
  by (induction ds) auto

lemma findClosestDepth_above: "130 < d \<Longrightarrow> findClosestDepth d = -1"
  by (simp add: findClosestDepth_def depths_navyTable1)

lemma findClosestDepth_below: "d < 10 \<Longrightarrow> findClosestDepth d = 10"
  by (simp add: findClosestDepth_def depths_navyTable1)

lemma findClosestDepth_mid:
  "10 \<le> d \<Longrightarrow> d \<le> 130 \<Longrightarrow> findClosestDepth d = firstDepthAtLeast d (map fst navyTable1)"
  by (simp add: findClosestDepth_def depths_navyTable1)

lemma findClosestDepth_key:
  assumes "d \<le> 130"
  shows "findClosestDepth d \<in> set (map fst navyTable1) \<and> d \<le> findClosestDepth d"
proof (cases "d < 10")
  case True
  then show ?thesis by (simp add: findClosestDepth_below depths_navyTable1)
next
  case False
  have "map fst navyTable1 \<noteq> []" "d \<le> last (map fst navyTable1)"
    using assms by (simp_all add: depths_navyTable1)
  from firstDepthAtLeast_found [OF this] show ?thesis
    using False assms by (simp add: findClosestDepth_mid)
qed

lemma findClosestDepth_least:
  assumes "k \<in> set (map fst navyTable1)" "d \<le> k"
  shows "findClosestDepth d \<le> k"
proof (cases "d < 10")
  case True
  then show ?thesis
    using assms(1) by (auto simp add: findClosestDepth_below depths_navyTable1)
next
  case False
  have k: "k \<le> 130"
    using assms(1) by (auto simp add: depths_navyTable1)
  have "sorted (map fst navyTable1)"
    by (simp add: depths_navyTable1)
  from firstDepthAtLeast_least [OF this assms] show ?thesis
    using False assms k by (simp add: findClosestDepth_mid)
qed

lemma findClosestDepth_band:
  assumes "d \<le> 130"
  shows "\<exists>ndl tg. (findClosestDepth d, ndl, tg) \<in> set navyTable1"
proof -
  have "findClosestDepth d \<in> fst ` set navyTable1"
    using findClosestDepth_key [OF assms] by simp
  then show ?thesis by force
qed

text \<open>
  Every band of table 1: the thresholds increase strictly and start above 0, the groups
  increase with them, and the limit is positive and at most the last threshold.
\<close>

lemma navyTable1_bands:
  "list_all (\<lambda>(k, ndl, tg).
      sorted_wrt (<) (map fst tg) \<and> sorted (map snd tg) \<and> tg \<noteq> [] \<and> 0 < fst (hd tg)
      \<and> 0 < ndl \<and> ndl \<le> fst (last tg)
      \<and> snd (hd tg) =
          (if k \<le> 40 then ''A'' else if k \<le> 110 then ''B'' else if k = 120 then ''C'' else ''D''))
    navyTable1"
  by (simp add: navyTable1_def)

lemma navyTable1_band:
  assumes "(k, ndl, tg) \<in> set navyTable1"
  shows "sorted_wrt (<) (map fst tg)" and "sorted (map snd tg)" and "tg \<noteq> []"
    and "0 < fst (hd tg)" and "0 < ndl" and "ndl \<le> fst (last tg)"
    and "snd (hd tg) =
          (if k \<le> 40 then ''A'' else if k \<le> 110 then ''B'' else if k = 120 then ''C'' else ''D'')"
  using navyTable1_bands assms unfolding list_all_iff by fastforce+

text \<open>The scan of the sorted thresholds is a search in the list of pairs.\<close>

lemma firstGroupAtLeast_find:
  "distinct (map fst tg) \<Longrightarrow> set ts \<subseteq> set tg \<Longrightarrow>
   firstGroupAtLeast tg t (map fst ts) = map_option snd (find (\<lambda>p. t \<le> fst p) ts)"
  by (induction ts) (auto simp add: map_of_eq_Some_iff)

lemma find_monotone:
  "sorted (map snd tg) \<Longrightarrow> t1 \<le> t2 \<Longrightarrow>
   find (\<lambda>p. t1 \<le> fst p) tg = Some (a, g1) \<Longrightarrow> find (\<lambda>p. t2 \<le> fst p) tg = Some (b, g2) \<Longrightarrow>
   g1 \<le> g2"
  for t1 t2 :: real and g1 g2 :: string
proof (induction tg)
  case Nil
  then show ?case by simp
next
  case (Cons p tg)
  show ?case
  proof (cases "t1 \<le> fst p")
    case True
    then have g1: "g1 = snd p"
      using Cons.prems(3) by auto
    have "(b, g2) \<in> set (p # tg)"
      using Cons.prems(4) by (metis find_Some_iff nth_mem)
    then have "g2 \<in> set (map snd (p # tg))"
      by force
    then show ?thesis
      using Cons.prems(1) g1 by auto
  next
    case False
    then have "\<not> t2 \<le> fst p"
      using Cons.prems(2) by simp
    then show ?thesis
      using Cons False by simp
  qed
qed

lemma find_least_threshold:
  "sorted_wrt (<) (map fst tg) \<Longrightarrow> (th, g) \<in> set tg \<Longrightarrow> t \<le> th \<Longrightarrow>
   \<forall>p \<in> set tg. t \<le> fst p \<longrightarrow> th \<le> fst p \<Longrightarrow>
   find (\<lambda>p. t \<le> fst p) tg = Some (th, g)"
  for t :: real
proof (induction tg)
  case Nil
  then show ?case by simp
next
  case (Cons p tg)
  show ?case
  proof (cases "t \<le> fst p")
    case True
    then have le: "th \<le> fst p"
      using Cons.prems(4) by simp
    have "(th, g) = p"
    proof (rule ccontr)
      assume "(th, g) \<noteq> p"
      then have "(th, g) \<in> set tg"
        using Cons.prems(2) by simp
      then have "fst p < th"
        using Cons.prems(1) by force
      then show False
        using le by simp
    qed
    then show ?thesis
      using True by auto
  next
    case False
    then have "(th, g) \<noteq> p"
      using Cons.prems(3) by auto
    then have "(th, g) \<in> set tg"
      using Cons.prems(2) by simp
    then show ?thesis
      using Cons False by simp
  qed
qed

lemma find_last_threshold:
  "tg \<noteq> [] \<Longrightarrow> t \<le> fst (last tg) \<Longrightarrow> find (\<lambda>p. t \<le> fst p) tg \<noteq> None"
  for t :: real
  by (induction tg) (auto split: if_splits)

text \<open>What \<^const>\<open>getSingleDiveInfo\<close> returns for a depth whose band is known.\<close>

lemma getSingleDiveInfo_in_band:
  assumes "d \<le> 130" and "(findClosestDepth d, ndl, tg) \<in> set navyTable1"
  shows "getSingleDiveInfo d t =
       (if t > ndl then
          Inr \<lparr>isExceeded = True, message = BottomTimeExceedsNDL ndl (findClosestDepth d),
               noDecoLimit = ndl, pressureGroup = None\<rparr>
        else
          Inr \<lparr>isExceeded = False,
               message = LimitAndGroup ndl (map_option snd (find (\<lambda>p. t \<le> fst p) tg)),
               noDecoLimit = ndl,
               pressureGroup = map_option snd (find (\<lambda>p. t \<le> fst p) tg)\<rparr>)"
proof -
  have "distinct (map fst navyTable1)"
    by (simp add: depths_navyTable1)
  then have look: "map_of navyTable1 (findClosestDepth d) = Some (ndl, tg)"
    using assms(2) by (rule map_of_is_SomeI)
  have valid: "findClosestDepth d \<noteq> -1"
    using findClosestDepth_key [OF assms(1)] by (auto simp add: depths_navyTable1)
  have "sorted_wrt (<) (map fst tg)"
    using assms(2) by (rule navyTable1_band)
  then have "sorted (map fst tg)" and "distinct (map fst tg)"
    by (simp_all add: strict_sorted_iff strict_sorted_imp_sorted)
  then have "sort (map fst tg) = map fst tg"
    and "firstGroupAtLeast tg t (map fst tg) = map_option snd (find (\<lambda>p. t \<le> fst p) tg)"
    by (simp_all add: sorted_sort_id firstGroupAtLeast_find)
  then show ?thesis
    using look valid by (simp add: getSingleDiveInfo_def Let_def)
qed

lemma findClosestDepth_of_key:
  "k \<in> set (map fst navyTable1) \<Longrightarrow> findClosestDepth k = k"
  by (auto simp add: depths_navyTable1 findClosestDepth_def)

section \<open>The depth lookup\<close>

text \<open>
  Claim C6. For every requested depth, \<^verbatim>\<open>findClosestDepth\<close> returns the smallest
  table depth that is at least the requested depth; below the smallest table depth
  (10 ft) it returns that depth; above the largest table depth (130 ft) it returns the
  sentinel \<open>-1\<close>, on which \<^verbatim>\<open>getSingleDiveInfo\<close> reports that the depth exceeds
  the table.
\<close>

theorem findClosestDepth_smallest_band:
  "(d \<le> 130 \<longrightarrow>
      findClosestDepth d \<in> set (map fst navyTable1) \<and> d \<le> findClosestDepth d
      \<and> (\<forall>k \<in> set (map fst navyTable1). d \<le> k \<longrightarrow> findClosestDepth d \<le> k))
   \<and> (d < 10 \<longrightarrow> findClosestDepth d = 10)
   \<and> (130 < d \<longrightarrow>
        findClosestDepth d = -1
        \<and> getSingleDiveInfo d t =
            Inr \<lparr>isExceeded = True, message = DepthExceedsTable,
                 noDecoLimit = 0, pressureGroup = None\<rparr>)
   \<and> Min (set (map fst navyTable1)) = 10 \<and> Max (set (map fst navyTable1)) = 130"
  using findClosestDepth_key [of d] findClosestDepth_least [of _ d]
    findClosestDepth_below [of d] findClosestDepth_above [of d]
  by (simp add: getSingleDiveInfo_def depths_navyTable1)

theorem findClosestDepth_smallest_band_witness:
  "(42::real) \<le> 130 \<and> findClosestDepth 42 = 50 \<and> (5::real) < 10 \<and> findClosestDepth 5 = 10
   \<and> (130::real) < 131 \<and> findClosestDepth 131 = -1"
  using findClosestDepth_smallest_band [of 42 0] findClosestDepth_smallest_band [of 5 0]
    findClosestDepth_smallest_band [of 131 0]
  by (simp add: findClosestDepth_def depths_navyTable1)

section \<open>The single-dive lookup\<close>

text \<open>
  Claim C3, as amended. The claim says that a bottom time of 0 yields no pressure group.
  The scan compares \<^verbatim>\<open>bottomTime <= times[i]\<close>, which 0 satisfies at the first
  threshold: for every depth that normalizes to a table band,
  \<^verbatim>\<open>getSingleDiveInfo(depth, 0)\<close> is not exceeded and returns the group of the band's
  smallest threshold: A in the bands up to 40 ft, B from 50 to 110 ft, C at 120 ft and D at
  130 ft.
\<close>

theorem getSingleDiveInfo_zero_first_group:
  assumes "d \<le> 130"
  shows "\<exists>ndl tg. (findClosestDepth d, ndl, tg) \<in> set navyTable1
     \<and> getSingleDiveInfo d 0 =
         Inr \<lparr>isExceeded = False, message = LimitAndGroup ndl (Some (snd (hd tg))),
              noDecoLimit = ndl, pressureGroup = Some (snd (hd tg))\<rparr>
     \<and> snd (hd tg) =
         (if findClosestDepth d \<le> 40 then ''A'' else if findClosestDepth d \<le> 110 then ''B''
          else if findClosestDepth d = 120 then ''C'' else ''D'')"
proof -
  from findClosestDepth_band [OF assms] obtain ndl tg
    where band: "(findClosestDepth d, ndl, tg) \<in> set navyTable1" by blast
  note b = navyTable1_band [OF band]
  have "find (\<lambda>p. 0 \<le> fst p) tg = Some (hd tg)"
    using b(3) b(4) by (cases tg) simp_all
  then have "getSingleDiveInfo d 0 =
         Inr \<lparr>isExceeded = False, message = LimitAndGroup ndl (Some (snd (hd tg))),
              noDecoLimit = ndl, pressureGroup = Some (snd (hd tg))\<rparr>"
    using b(5) by (simp add: getSingleDiveInfo_in_band [OF assms band])
  then show ?thesis using band b(7) by blast
qed

theorem getSingleDiveInfo_zero_first_group_witness:
  "(60::real) \<le> 130 \<and>
   (\<exists>ndl tg. (findClosestDepth 60, ndl, tg) \<in> set navyTable1
     \<and> getSingleDiveInfo 60 0 =
         Inr \<lparr>isExceeded = False, message = LimitAndGroup ndl (Some (snd (hd tg))),
              noDecoLimit = ndl, pressureGroup = Some (snd (hd tg))\<rparr>
     \<and> snd (hd tg) = ''B'')"
proof -
  have h: "(60::real) \<le> 130" by simp
  have "findClosestDepth 60 = 60"
    by (simp add: findClosestDepth_def depths_navyTable1)
  then show ?thesis
    using h getSingleDiveInfo_zero_first_group [OF h] by simp
qed

text \<open>At 60 ft a bottom time of 0 yields group B.\<close>

theorem getSingleDiveInfo_zero_counterexample:
  "map_sum id pressureGroup (getSingleDiveInfo 60 0) = Inr (Some ''B'')
   \<and> map_sum id pressureGroup (getSingleDiveInfo 60 0) \<noteq> Inr None"
  by (simp add: getSingleDiveInfo_def findClosestDepth_def navyTable1_def Let_def)

text \<open>
  Claim C5, as amended. The claim says that a bottom time equal to a threshold yields that
  threshold's group. The limit is tested first, and at 15 ft the threshold 350 lies above
  the limit 300, so there the dive is exceeded. What holds: \<^verbatim>\<open>getSingleDiveInfo\<close>
  compares the bottom time to the thresholds with \<open>\<le>\<close>. A bottom time within the band's
  limit is not exceeded and yields a group, the group of the smallest threshold that is at
  least the bottom time; so a bottom time equal to a threshold yields that threshold's
  group, not the next one. A bottom time above the limit is exceeded and has no group. In
  particular \<^verbatim>\<open>getSingleDiveInfo(60, 50)\<close> has limit 50, group H and is not exceeded,
  and \<^verbatim>\<open>getSingleDiveInfo(60, 51)\<close> is exceeded.
\<close>

theorem getSingleDiveInfo_smallest_threshold:
  "(d \<le> 130 \<longrightarrow> (findClosestDepth d, ndl, tg) \<in> set navyTable1 \<longrightarrow>
      (t \<le> ndl \<longrightarrow> (th, g) \<in> set tg \<longrightarrow> t \<le> th \<longrightarrow>
         (\<forall>p \<in> set tg. t \<le> fst p \<longrightarrow> th \<le> fst p) \<longrightarrow>
         getSingleDiveInfo d t =
           Inr \<lparr>isExceeded = False, message = LimitAndGroup ndl (Some g),
                noDecoLimit = ndl, pressureGroup = Some g\<rparr>)
      \<and> (t \<le> ndl \<longrightarrow> (t, g) \<in> set tg \<longrightarrow>
         getSingleDiveInfo d t =
           Inr \<lparr>isExceeded = False, message = LimitAndGroup ndl (Some g),
                noDecoLimit = ndl, pressureGroup = Some g\<rparr>)
      \<and> (t \<le> ndl \<longrightarrow>
         (\<exists>r g'. getSingleDiveInfo d t = Inr r \<and> \<not> isExceeded r \<and> pressureGroup r = Some g'))
      \<and> (ndl < t \<longrightarrow>
         getSingleDiveInfo d t =
           Inr \<lparr>isExceeded = True, message = BottomTimeExceedsNDL ndl (findClosestDepth d),
                noDecoLimit = ndl, pressureGroup = None\<rparr>))
   \<and> getSingleDiveInfo 60 50 =
        Inr \<lparr>isExceeded = False, message = LimitAndGroup 50 (Some ''H''),
             noDecoLimit = 50, pressureGroup = Some ''H''\<rparr>
   \<and> getSingleDiveInfo 60 51 =
        Inr \<lparr>isExceeded = True, message = BottomTimeExceedsNDL 50 60,
             noDecoLimit = 50, pressureGroup = None\<rparr>"
proof (intro conjI impI)
  assume d: "d \<le> 130" and band: "(findClosestDepth d, ndl, tg) \<in> set navyTable1"
  note info = getSingleDiveInfo_in_band [OF d band]
  have sorted: "sorted_wrt (<) (map fst tg)"
    using band by (rule navyTable1_band)
  show "getSingleDiveInfo d t =
        Inr \<lparr>isExceeded = False, message = LimitAndGroup ndl (Some g),
             noDecoLimit = ndl, pressureGroup = Some g\<rparr>"
    if t: "t \<le> ndl" and mem: "(th, g) \<in> set tg" and le: "t \<le> th"
      and least: "\<forall>p \<in> set tg. t \<le> fst p \<longrightarrow> th \<le> fst p"
  proof -
    have "find (\<lambda>p. t \<le> fst p) tg = Some (th, g)"
      using sorted mem le least by (rule find_least_threshold)
    then show ?thesis
      using t by (simp add: info)
  qed
  show "getSingleDiveInfo d t =
        Inr \<lparr>isExceeded = False, message = LimitAndGroup ndl (Some g),
             noDecoLimit = ndl, pressureGroup = Some g\<rparr>"
    if t: "t \<le> ndl" and mem: "(t, g) \<in> set tg"
  proof -
    have "find (\<lambda>p. t \<le> fst p) tg = Some (t, g)"
      using sorted mem by (rule find_least_threshold) simp_all
    then show ?thesis
      using t by (simp add: info)
  qed
  show "\<exists>r g'. getSingleDiveInfo d t = Inr r \<and> \<not> isExceeded r \<and> pressureGroup r = Some g'"
    if t: "t \<le> ndl"
  proof -
    have "tg \<noteq> []" and "ndl \<le> fst (last tg)"
      using band by (rule navyTable1_band)+
    then have "find (\<lambda>p. t \<le> fst p) tg \<noteq> None"
      using t by (intro find_last_threshold) simp_all
    then show ?thesis
      using t by (auto simp add: info)
  qed
  show "getSingleDiveInfo d t =
        Inr \<lparr>isExceeded = True, message = BottomTimeExceedsNDL ndl (findClosestDepth d),
             noDecoLimit = ndl, pressureGroup = None\<rparr>"
    if "ndl < t"
    using that by (simp add: info)
next
  show "getSingleDiveInfo 60 50 =
        Inr \<lparr>isExceeded = False, message = LimitAndGroup 50 (Some ''H''),
             noDecoLimit = 50, pressureGroup = Some ''H''\<rparr>"
    by (simp add: getSingleDiveInfo_def findClosestDepth_def navyTable1_def Let_def)
next
  show "getSingleDiveInfo 60 51 =
        Inr \<lparr>isExceeded = True, message = BottomTimeExceedsNDL 50 60,
             noDecoLimit = 50, pressureGroup = None\<rparr>"
    by (simp add: getSingleDiveInfo_def findClosestDepth_def navyTable1_def Let_def)
qed

text \<open>
  At 60 ft a bottom time of 45 lies between the thresholds 40 and 50 and gets the group
  of 50; a bottom time of 51 is above the limit.
\<close>

theorem getSingleDiveInfo_smallest_threshold_witness:
  "(60::real) \<le> 130
   \<and> (findClosestDepth 60, 50,
        [(10, ''B''), (15, ''C''), (20, ''D''), (25, ''E''), (30, ''F''), (40, ''G''), (50, ''H'')])
       \<in> set navyTable1
   \<and> (45::real) \<le> 50
   \<and> (50, ''H'') \<in> set [(10::real, ''B''), (15, ''C''), (20, ''D''), (25, ''E''), (30, ''F''),
        (40, ''G''), (50, ''H'')]
   \<and> filter (\<lambda>p. 45 \<le> fst p) [(10::real, ''B''), (15, ''C''), (20, ''D''), (25, ''E''),
        (30, ''F''), (40, ''G''), (50, ''H'')] = [(50, ''H'')]
   \<and> getSingleDiveInfo 60 45 =
        Inr \<lparr>isExceeded = False, message = LimitAndGroup 50 (Some ''H''),
             noDecoLimit = 50, pressureGroup = Some ''H''\<rparr>
   \<and> (50::real) < 51
   \<and> getSingleDiveInfo 60 51 =
        Inr \<lparr>isExceeded = True, message = BottomTimeExceedsNDL 50 60,
             noDecoLimit = 50, pressureGroup = None\<rparr>"
proof -
  have fcd: "findClosestDepth 60 = 60"
    by (simp add: findClosestDepth_def depths_navyTable1)
  have band: "(findClosestDepth 60, 50,
        [(10, ''B''), (15, ''C''), (20, ''D''), (25, ''E''), (30, ''F''), (40, ''G''), (50, ''H'')])
       \<in> set navyTable1"
    unfolding fcd by (simp add: navyTable1_def)
  show ?thesis
    using band
      getSingleDiveInfo_smallest_threshold [of 60 50
        "[(10, ''B''), (15, ''C''), (20, ''D''), (25, ''E''), (30, ''F''), (40, ''G''), (50, ''H'')]"
        45 50 "''H''"]
      getSingleDiveInfo_smallest_threshold [of 60 50
        "[(10, ''B''), (15, ''C''), (20, ''D''), (25, ''E''), (30, ''F''), (40, ''G''), (50, ''H'')]"
        51 50 "''H''"]
    by (simp add: fcd)
qed

text \<open>
  At 15 ft the band's limit is 300 minutes and its last threshold is 350, for group F: a
  bottom time of 350 equals a threshold and is exceeded, with no group.
\<close>

theorem getSingleDiveInfo_threshold_above_limit_counterexample:
  "map_of navyTable1 15 =
     Some (300, [(35, ''A''), (70, ''B''), (110, ''C''), (160, ''D''), (225, ''E''), (350, ''F'')])
   \<and> getSingleDiveInfo 15 350 =
        Inr \<lparr>isExceeded = True, message = BottomTimeExceedsNDL 300 15,
             noDecoLimit = 300, pressureGroup = None\<rparr>"
  by (simp add: getSingleDiveInfo_def findClosestDepth_def navyTable1_def Let_def)

text \<open>
  Claim C7. For a depth within the table's range, \<^verbatim>\<open>getSingleDiveInfo(depth, t)\<close> is
  monotone in the bottom time: for \<open>t1 \<le> t2\<close> the group at \<open>t2\<close>, when both are
  present, is not alphabetically before the group at \<open>t1\<close>, and a dive exceeded at
  \<open>t1\<close> is exceeded at \<open>t2\<close>.
\<close>

theorem getSingleDiveInfo_monotone:
  assumes "d \<le> 130" and "t1 \<le> t2"
  shows "\<exists>r1 r2. getSingleDiveInfo d t1 = Inr r1 \<and> getSingleDiveInfo d t2 = Inr r2
     \<and> (isExceeded r1 \<longrightarrow> isExceeded r2)
     \<and> (\<forall>g1 g2. pressureGroup r1 = Some g1 \<longrightarrow> pressureGroup r2 = Some g2 \<longrightarrow> g1 \<le> g2)"
proof -
  from findClosestDepth_band [OF assms(1)] obtain ndl tg
    where band: "(findClosestDepth d, ndl, tg) \<in> set navyTable1" by blast
  have mono: "sorted (map snd tg)"
    using band by (rule navyTable1_band)
  note info = getSingleDiveInfo_in_band [OF assms(1) band]
  show ?thesis
  proof (cases "t2 \<le> ndl")
    case True
    then have "t1 \<le> ndl" using assms(2) by simp
    with True show ?thesis
      using find_monotone [OF mono assms(2)] by (auto simp add: info)
  next
    case False
    then show ?thesis by (auto simp add: info)
  qed
qed

theorem getSingleDiveInfo_monotone_witness:
  "(60::real) \<le> 130 \<and> (10::real) \<le> 45 \<and>
   (\<exists>r1 r2. getSingleDiveInfo 60 10 = Inr r1 \<and> getSingleDiveInfo 60 45 = Inr r2
     \<and> pressureGroup r1 = Some ''B'' \<and> pressureGroup r2 = Some ''H'' \<and> ''B'' \<le> ''H''
     \<and> (isExceeded r1 \<longrightarrow> isExceeded r2))"
proof -
  have h: "(60::real) \<le> 130" "(10::real) \<le> 45" by simp_all
  have "getSingleDiveInfo 60 10 =
      Inr \<lparr>isExceeded = False, message = LimitAndGroup 50 (Some ''B''),
           noDecoLimit = 50, pressureGroup = Some ''B''\<rparr>"
    "getSingleDiveInfo 60 45 =
      Inr \<lparr>isExceeded = False, message = LimitAndGroup 50 (Some ''H''),
           noDecoLimit = 50, pressureGroup = Some ''H''\<rparr>"
    by (simp_all add: getSingleDiveInfo_def findClosestDepth_def navyTable1_def Let_def)
  then show ?thesis
    using h getSingleDiveInfo_monotone [OF h] by auto
qed

section \<open>The final pressure group\<close>





section \<open>The surface interval lookup\<close>

text \<open>
  In every row of table 2 each range starts at 10 minutes or later, and each range but the
  open one ends, by a parsed number, at 12 hours or earlier.
\<close>

lemma navyTable2_rows:
  "list_all (\<lambda>(g, ranges). list_all (\<lambda>(newGroup, minTime, maxTime).
      (case parseTimeToMinutes minTime of Num a \<Rightarrow> 10 \<le> a | _ \<Rightarrow> False)
      \<and> (newGroup \<noteq> ''None'' \<longrightarrow> maxTime \<noteq> ''--''
           \<and> (case parseTimeToMinutes maxTime of Num b \<Rightarrow> b \<le> 720 | _ \<Rightarrow> False))) ranges)
    navyTable2"
  by (simp add: navyTable2_def parseTimeToMinutes_def Number_def digitValue_def)

lemma navyTable2_range:
  assumes "map_of navyTable2 g = Some ranges" and "(newGroup, minTime, maxTime) \<in> set ranges"
  shows "\<exists>a. parseTimeToMinutes minTime = Num a \<and> 10 \<le> a"
    and "newGroup \<noteq> ''None'' \<Longrightarrow>
          maxTime \<noteq> ''--'' \<and> (\<exists>b. parseTimeToMinutes maxTime = Num b \<and> b \<le> 720)"
proof -
  have "(g, ranges) \<in> set navyTable2"
    using assms(1) by (rule map_of_SomeD)
  then have *: "(case parseTimeToMinutes minTime of Num a \<Rightarrow> 10 \<le> a | _ \<Rightarrow> False)
      \<and> (newGroup \<noteq> ''None'' \<longrightarrow> maxTime \<noteq> ''--''
           \<and> (case parseTimeToMinutes maxTime of Num b \<Rightarrow> b \<le> 720 | _ \<Rightarrow> False))"
    using navyTable2_rows assms(2) unfolding list_all_iff by fastforce
  then show "\<exists>a. parseTimeToMinutes minTime = Num a \<and> 10 \<le> a"
    by (auto split: jsnum.splits)
  show "maxTime \<noteq> ''--'' \<and> (\<exists>b. parseTimeToMinutes maxTime = Num b \<and> b \<le> 720)"
    if "newGroup \<noteq> ''None''"
    using * that by (auto split: jsnum.splits)
qed

lemma scanRanges_short:
  assumes "\<forall>e \<in> set ranges. \<exists>a. parseTimeToMinutes (fst (snd e)) = Num a \<and> 10 \<le> a"
    and "m < 10"
  shows "scanRanges (Num m) ranges = None"
  using assms by (induction ranges) (auto simp add: inRange_def Let_def split: prod.splits)

lemma scanRanges_long:
  assumes "\<forall>e \<in> set ranges. fst e \<noteq> ''None'' \<longrightarrow>
             snd (snd e) \<noteq> ''--'' \<and> (\<exists>b. parseTimeToMinutes (snd (snd e)) = Num b \<and> b \<le> 720)"
    and "720 \<le> m"
  shows "scanRanges (Num m) ranges = None"
  using assms by (induction ranges) (auto simp add: inRange_def Let_def split: prod.splits)

text \<open>
  In every row of table 2 a range ends, by a parsed number, no later than every later
  range starts; so at most one range holds a given number of minutes.
\<close>

lemma navyTable2_ordered:
  "list_all (\<lambda>(g, ranges).
      sorted_wrt (\<lambda>e e'. snd (snd e) \<noteq> ''--''
        \<and> (case (parseTimeToMinutes (snd (snd e)), parseTimeToMinutes (fst (snd e'))) of
              (Num b, Num a') \<Rightarrow> b \<le> a' | _ \<Rightarrow> False)) ranges)
    navyTable2"
  by (simp add: navyTable2_def parseTimeToMinutes_def Number_def digitValue_def)

lemma inRange_exclusive:
  assumes "snd (snd e) \<noteq> ''--''
      \<and> (case (parseTimeToMinutes (snd (snd e)), parseTimeToMinutes (fst (snd e'))) of
            (Num b, Num a') \<Rightarrow> b \<le> a' | _ \<Rightarrow> False)"
    and "inRange (Num m) e"
  shows "\<not> inRange (Num m) e'"
  using assms
  by (cases e; cases e') (auto simp add: inRange_def Let_def split: jsnum.splits)

lemma filter_inRange_at_most_one:
  assumes "sorted_wrt (\<lambda>e e'. snd (snd e) \<noteq> ''--''
        \<and> (case (parseTimeToMinutes (snd (snd e)), parseTimeToMinutes (fst (snd e'))) of
              (Num b, Num a') \<Rightarrow> b \<le> a' | _ \<Rightarrow> False)) ranges"
  shows "length (filter (inRange (Num m)) ranges) \<le> 1"
  using assms
proof (induction ranges)
  case Nil
  then show ?case by simp
next
  case (Cons entry ranges)
  show ?case
  proof (cases "inRange (Num m) entry")
    case True
    have "\<not> inRange (Num m) e" if "e \<in> set ranges" for e
    proof (rule inRange_exclusive [OF _ True])
      show "snd (snd entry) \<noteq> ''--''
        \<and> (case (parseTimeToMinutes (snd (snd entry)), parseTimeToMinutes (fst (snd e))) of
              (Num b, Num a') \<Rightarrow> b \<le> a' | _ \<Rightarrow> False)"
        using Cons.prems that by simp
    qed
    then have "filter (inRange (Num m)) ranges = []"
      by (simp add: filter_empty_conv)
    then show ?thesis using True by simp
  next
    case False
    then show ?thesis using Cons by simp
  qed
qed

lemma getNewPressureGroup_at_most_one_range:
  assumes "map_of navyTable2 g = Some ranges"
  shows "length (filter (inRange (Num m)) ranges) \<le> 1"
proof -
  have "(g, ranges) \<in> set navyTable2"
    using assms by (rule map_of_SomeD)
  then show ?thesis
    using navyTable2_ordered unfolding list_all_iff
    by (intro filter_inRange_at_most_one) fastforce
qed

text \<open>
  Claim C1. For every starting group of table 2 and every elapsed time of at least 10
  minutes, exactly one range should match. No two ranges match (the lemma above), but the
  test \<^verbatim>\<open>surfaceIntervalMinutes < maxMinutes\<close> leaves out the last minute of every
  range, which the table writes as belonging to it: from group K an interval of
  \<^verbatim>\<open>0:28\<close> parses to 28 minutes and matches no range, so the result is \<^verbatim>\<open>null\<close>,
  between \<^verbatim>\<open>0:27\<close>, which stays in K, and \<^verbatim>\<open>0:29\<close>, which reaches J.
\<close>

theorem getNewPressureGroup_gap_at_range_end:
  "parseTimeToMinutes ''0:28'' = Num 28
   \<and> map_option (filter (inRange (Num 28))) (map_of navyTable2 ''K'') = Some []
   \<and> getNewPressureGroup ''K'' ''0:28'' = None
   \<and> getNewPressureGroup ''K'' ''0:27'' = Some ''K''
   \<and> getNewPressureGroup ''K'' ''0:29'' = Some ''J''"
  by (simp add: getNewPressureGroup_def navyTable2_def inRange_def parseTimeToMinutes_def
      Number_def digitValue_def)

text \<open>
  Claim C10. For every starting group of table 2, an elapsed time that parses to fewer than
  10 minutes gives \<^verbatim>\<open>null\<close>; a starting group that is not in the table gives
  \<^verbatim>\<open>null\<close>; and an elapsed time of 12 hours or more, the open-ended range
  \<^verbatim>\<open>'None'\<close>, gives \<^verbatim>\<open>null\<close> as well. The three outcomes are the same value.
\<close>

theorem getNewPressureGroup_null_cases:
  "(map_of navyTable2 g \<noteq> None \<longrightarrow> parseTimeToMinutes s = Num m \<longrightarrow> m < 10 \<longrightarrow>
      getNewPressureGroup g s = None)
   \<and> (map_of navyTable2 g = None \<longrightarrow> getNewPressureGroup g s = None)
   \<and> (map_of navyTable2 g \<noteq> None \<longrightarrow> parseTimeToMinutes s = Num m \<longrightarrow> 720 \<le> m \<longrightarrow>
      getNewPressureGroup g s = None)"
proof (intro conjI impI)
  assume "map_of navyTable2 g \<noteq> None" and s: "parseTimeToMinutes s = Num m" and m: "m < 10"
  then obtain ranges where r: "map_of navyTable2 g = Some ranges" by auto
  have "scanRanges (Num m) ranges = None"
    using navyTable2_range(1) [OF r] m by (intro scanRanges_short) auto
  then show "getNewPressureGroup g s = None"
    by (simp add: getNewPressureGroup_def r s)
next
  assume "map_of navyTable2 g = None"
  then show "getNewPressureGroup g s = None"
    by (simp add: getNewPressureGroup_def)
next
  assume "map_of navyTable2 g \<noteq> None" and s: "parseTimeToMinutes s = Num m" and m: "720 \<le> m"
  then obtain ranges where r: "map_of navyTable2 g = Some ranges" by auto
  have "scanRanges (Num m) ranges = None"
    using navyTable2_range(2) [OF r] m by (intro scanRanges_long) auto
  then show "getNewPressureGroup g s = None"
    by (simp add: getNewPressureGroup_def r s)
qed

theorem getNewPressureGroup_null_cases_witness:
  "map_of navyTable2 ''K'' \<noteq> None \<and> parseTimeToMinutes ''0:09'' = Num 9 \<and> (9::real) < 10
   \<and> getNewPressureGroup ''K'' ''0:09'' = None
   \<and> map_of navyTable2 ''Z'' = None \<and> getNewPressureGroup ''Z'' ''0:09'' = None
   \<and> parseTimeToMinutes ''12:00'' = Num 720 \<and> (720::real) \<le> 720
   \<and> getNewPressureGroup ''K'' ''12:00'' = None"
proof -
  have h: "map_of navyTable2 ''K'' \<noteq> None" "map_of navyTable2 ''Z'' = None"
    by (simp_all add: navyTable2_def)
  have p: "parseTimeToMinutes ''0:09'' = Num 9" "parseTimeToMinutes ''12:00'' = Num 720"
    by (simp_all add: parseTimeToMinutes_def Number_def digitValue_def)
  show ?thesis
    using h p getNewPressureGroup_null_cases [of "''K''" "''0:09''" 9]
      getNewPressureGroup_null_cases [of "''Z''" "''0:09''" 9]
      getNewPressureGroup_null_cases [of "''K''" "''12:00''" 720]
    by simp
qed

section \<open>The residual nitrogen table\<close>

lemma depths_navyTable3:
  "map fst navyTable3 = [10, 20, 30, 40, 50, 60, 70, 80, 90, 100, 110, 120, 130]"
  by (simp add: navyTable3_def)

lemma navyTable3_cells:
  "list_all (\<lambda>(k, row). list_all (\<lambda>(g, rnt, andl).
      rnt = NL \<longrightarrow> andl = (if k \<le> 20 then NL else Minutes 0)) row) navyTable3"
  by (simp add: navyTable3_def)

lemma table3Entry_SomeD:
  assumes "table3Entry k g = Some (rnt, andl)"
  obtains row where "(k, row) \<in> set navyTable3" and "(g, rnt, andl) \<in> set row"
  using assms unfolding table3Entry_def
  by (auto split: option.splits dest!: map_of_SomeD)

text \<open>
  Claim C4, as amended. The claim says that an entry of table 3 whose residual nitrogen
  time is \<^verbatim>\<open>'N/L'\<close> has the adjusted no-decompression limit 0. That holds from 30 ft
  on; at 10 and 20 ft the limit of such an entry is itself \<^verbatim>\<open>'N/L'\<close>. In both cases
  \<^verbatim>\<open>getRepetitiveDiveInfo\<close> reports the dive as exceeded and returns the two cells.
\<close>

theorem navyTable3_not_allowed_limit:
  assumes "table3Entry k g = Some (NL, andl)"
  shows "andl = (if k \<le> 20 then NL else Minutes 0)
    \<and> getRepetitiveDiveInfo g k =
        \<lparr>isExceeded = True, message = NotRecommended,
         residualNitrogenTime = Some NL, adjustedNoDecoLimit = Some andl\<rparr>"
proof -
  from assms obtain row where row: "(k, row) \<in> set navyTable3" "(g, NL, andl) \<in> set row"
    by (rule table3Entry_SomeD)
  then have andl: "andl = (if k \<le> 20 then NL else Minutes 0)"
    using navyTable3_cells unfolding list_all_iff by fastforce
  have "k \<in> set (map fst navyTable3)"
    using row(1) by force
  then have "k \<in> set (map fst navyTable1)" and "k \<noteq> -1"
    by (auto simp add: depths_navyTable3 depths_navyTable1)
  then have "findClosestDepth k = k"
    by (simp add: findClosestDepth_of_key)
  then have "getRepetitiveDiveInfo g k =
        \<lparr>isExceeded = True, message = NotRecommended,
         residualNitrogenTime = Some NL, adjustedNoDecoLimit = Some andl\<rparr>"
    using assms \<open>k \<noteq> -1\<close> by (simp add: getRepetitiveDiveInfo_def)
  with andl show ?thesis by simp
qed

theorem navyTable3_not_allowed_limit_witness:
  "table3Entry 60 ''H'' = Some (NL, Minutes 0)
   \<and> getRepetitiveDiveInfo ''H'' 60 =
        \<lparr>isExceeded = True, message = NotRecommended,
         residualNitrogenTime = Some NL, adjustedNoDecoLimit = Some (Minutes 0)\<rparr>
   \<and> table3Entry 20 ''J'' = Some (NL, NL)
   \<and> getRepetitiveDiveInfo ''J'' 20 =
        \<lparr>isExceeded = True, message = NotRecommended,
         residualNitrogenTime = Some NL, adjustedNoDecoLimit = Some NL\<rparr>"
proof -
  have h: "table3Entry 60 ''H'' = Some (NL, Minutes 0)" "table3Entry 20 ''J'' = Some (NL, NL)"
    by (simp_all add: table3Entry_def navyTable3_def)
  show ?thesis
    using h navyTable3_not_allowed_limit [OF h(1)] navyTable3_not_allowed_limit [OF h(2)]
    by simp
qed

text \<open>At 10 ft the entry of group E is \<^verbatim>\<open>['N/L', 'N/L']\<close>.\<close>

theorem navyTable3_not_allowed_counterexample:
  "table3Entry 10 ''E'' = Some (NL, NL) \<and> NL \<noteq> Minutes 0"
  by (simp add: table3Entry_def navyTable3_def)

section \<open>Dalton's triangle: the accepted input combinations\<close>

text \<open>
  Claim C9. \<^verbatim>\<open>calculateDaltonsTriangle\<close> fails with the invalid-input-combination
  error exactly when zero, one or three of the inputs depth, fO2 and pO2 are present; with
  exactly two present it returns a result.
\<close>

theorem calculateDaltonsTriangle_error_iff:
  "(calculateDaltonsTriangle inputs = Inl InvalidInputCombination
      \<longleftrightarrow> presentCount inputs = 0 \<or> presentCount inputs = 1 \<or> presentCount inputs = 3)
   \<and> (presentCount inputs = 2 \<longrightarrow> (\<exists>r. calculateDaltonsTriangle inputs = Inr r))"
  by (cases "depth inputs"; cases "fO2 inputs"; cases "pO2 inputs")
    (simp_all add: calculateDaltonsTriangle_def presentCount_def Let_def)

theorem calculateDaltonsTriangle_error_iff_witness:
  "presentCount \<lparr>depth = Some 99, fO2 = Some (21 / 100), pO2 = None\<rparr> = 2
   \<and> calculateDaltonsTriangle \<lparr>depth = Some 99, fO2 = Some (21 / 100), pO2 = None\<rparr> =
       Inr \<lparr>depth = Some 99, fO2 = Some (21 / 100), pO2 = Some (84 / 100),
            pressure = Some 4, pN2 = Some (316 / 100)\<rparr>
   \<and> presentCount \<lparr>depth = Some 99, fO2 = Some (21 / 100), pO2 = Some 1\<rparr> = 3
   \<and> calculateDaltonsTriangle \<lparr>depth = Some 99, fO2 = Some (21 / 100), pO2 = Some 1\<rparr> =
       Inl InvalidInputCombination"
proof -
  have two: "presentCount \<lparr>depth = Some 99, fO2 = Some (21 / 100), pO2 = None\<rparr> = 2"
    and three: "presentCount \<lparr>depth = Some 99, fO2 = Some (21 / 100), pO2 = Some 1\<rparr> = 3"
    by (simp_all add: presentCount_def)
  have fmt: "toFixed2 99 = 99" "toFixed2 (21 / 100) = 21 / 100" "toFixed2 (84 / 100) = 84 / 100"
    "toFixed2 4 = 4" "toFixed2 (316 / 100) = 316 / 100"
    "toFixed2 (21 / 25) = 21 / 25" "toFixed2 (79 / 25) = 79 / 25"
    by (simp_all add: toFixed2_def)
  have val: "calculateDaltonsTriangle \<lparr>depth = Some 99, fO2 = Some (21 / 100), pO2 = None\<rparr> =
       Inr \<lparr>depth = Some 99, fO2 = Some (21 / 100), pO2 = Some (84 / 100),
            pressure = Some 4, pN2 = Some (316 / 100)\<rparr>"
    by (simp add: calculateDaltonsTriangle_def Let_def formatResult_def ftToATA_def fmt)
  show ?thesis
    using two three val
      calculateDaltonsTriangle_error_iff [of "\<lparr>depth = Some 99, fO2 = Some (21 / 100), pO2 = None\<rparr>"]
      calculateDaltonsTriangle_error_iff [of "\<lparr>depth = Some 99, fO2 = Some (21 / 100), pO2 = Some 1\<rparr>"]
    by simp
qed

section \<open>Equivalent air depth and back\<close>

text \<open>With exact arithmetic the two functions are the formulas of the source, and inverse.\<close>

lemma calculateEAD_exact:
  "calculateEAD (\<lambda>x. x) d o2 = Some ((d + 10) * ((100 - o2) / 100 / 0.79) - 10)"
  by (simp add: calculateEAD_def)

lemma calculateActualDepthFromEAD_exact:
  assumes "o2 \<noteq> 100"
  shows "calculateActualDepthFromEAD (\<lambda>x. x) ((d + 10) * ((100 - o2) / 100 / 0.79) - 10) o2 = Some d"
  using assms by (simp add: calculateActualDepthFromEAD_def field_simps)

text \<open>
  A rounding to double moves a number of magnitude at most 1024 by at most \<open>10\<^sup>-\<^sup>1\<^sup>2\<close>;
  products and quotients of nearby numbers are nearby.
\<close>

lemma rnd_close:
  assumes "roundsToDouble rnd" and "\<bar>x\<bar> \<le> 1024"
  shows "\<bar>rnd x - x\<bar> \<le> 1 / 10 ^ 12"
proof -
  have "\<bar>x\<bar> \<le> 2 ^ 1023"
    using assms(2) by simp
  then have "\<bar>rnd x - x\<bar> \<le> max (\<bar>x\<bar> / 2 ^ 53) (1 / 2 ^ 1075)"
    using assms(1) by (simp add: roundsToDouble_def)
  moreover have "\<bar>x\<bar> / 2 ^ 53 \<le> 1 / 10 ^ 12"
    using assms(2) by simp
  moreover have "(1::real) / 2 ^ 1075 \<le> 1 / 10 ^ 12"
    by simp
  ultimately show ?thesis
    by linarith
qed

lemma abs_mult_le:
  fixes a b :: real
  assumes "\<bar>a\<bar> \<le> A" and "\<bar>b\<bar> \<le> B"
  shows "\<bar>a * b\<bar> \<le> A * B"
proof -
  have "\<bar>a\<bar> * \<bar>b\<bar> \<le> A * B"
    using assms by (intro mult_mono) auto
  then show ?thesis by (simp add: abs_mult)
qed

lemma close_mult:
  fixes x y X Y :: real
  assumes "\<bar>x - X\<bar> \<le> e1" and "\<bar>y - Y\<bar> \<le> e2" and "\<bar>X\<bar> \<le> A" and "\<bar>y\<bar> \<le> B"
  shows "\<bar>x * y - X * Y\<bar> \<le> e1 * B + A * e2"
proof -
  have "x * y - X * Y = (x - X) * y + X * (y - Y)"
    by (simp add: algebra_simps)
  moreover have "\<bar>(x - X) * y\<bar> \<le> e1 * B"
    using assms(1,4) by (rule abs_mult_le)
  moreover have "\<bar>X * (y - Y)\<bar> \<le> A * e2"
    using assms(3,2) by (rule abs_mult_le)
  ultimately show ?thesis by linarith
qed

lemma close_div:
  fixes x y Z :: real
  assumes "0 < L" and "L \<le> y" and "\<bar>x - Z * y\<bar> \<le> e"
  shows "\<bar>x / y - Z\<bar> \<le> e / L"
proof -
  have y: "0 < y" using assms(1,2) by linarith
  then have "x / y - Z = (x - Z * y) / y"
    by (simp add: field_simps)
  then have "\<bar>x / y - Z\<bar> = \<bar>x - Z * y\<bar> / y"
    using y by simp
  also have "\<dots> \<le> e / L"
    using assms y by (intro frac_le) auto
  finally show ?thesis .
qed

text \<open>
  Claim C8. For every depth \<open>d\<close> in \<open>[0, 130]\<close> and every oxygen percentage in
  \<open>[21, 50]\<close>, \<^verbatim>\<open>calculateActualDepthFromEAD(calculateEAD(d, o2), o2)\<close> is a finite
  number within 0.1 ft of \<open>d\<close>. This holds for every rounding of the twelve operations
  and of the literal \<^verbatim>\<open>0.79\<close> that is as accurate as rounding to the nearest double,
  exact arithmetic included.
\<close>

theorem calculateActualDepthFromEAD_inverts_calculateEAD:
  assumes rnd: "roundsToDouble rnd"
    and d: "0 \<le> d" "d \<le> 130" and o2: "21 \<le> o2" "o2 \<le> 50"
  shows "\<exists>ead r. calculateEAD rnd d o2 = Some ead
    \<and> calculateActualDepthFromEAD rnd ead o2 = Some r \<and> \<bar>r - d\<bar> \<le> 1 / 10"
proof -
  define eps :: real where "eps = 1 / 10 ^ 12"
  have eps: "0 < eps" "eps \<le> 1 / 1000000"
    by (simp_all add: eps_def)
  have close: "\<bar>rnd x - x\<bar> \<le> eps" if "\<bar>x\<bar> \<le> 1024" for x
    using rnd_close [OF rnd that] by (simp add: eps_def)
  \<comment> \<open>the exact quantities\<close>
  define N where "N = (100 - o2) / 100"
  define Q where "Q = (100 - o2) / 79"
  define S where "S = d + 10"
  define M where "M = S * Q"
  have N: "1 / 2 \<le> N" "N \<le> 79 / 100" and Q: "0 \<le> Q" "Q \<le> 1" and S: "10 \<le> S" "S \<le> 140"
    using d o2 by (simp_all add: N_def Q_def S_def)
  have NQ: "N = Q * (79 / 100)"
    by (simp add: N_def Q_def)
  have N': "N = 1 - o2 / 100"
    by (simp add: N_def field_simps)
  have M: "0 \<le> M" "M \<le> 140"
  proof -
    show "0 \<le> M" using S Q by (simp add: M_def)
    have "S * Q \<le> 140 * 1"
      using S Q by (intro mult_mono) auto
    then show "M \<le> 140" by (simp add: M_def)
  qed
  have SN: "S * N = M * (79 / 100)"
    by (simp add: M_def NQ)
  \<comment> \<open>\<^verbatim>\<open>calculateEAD\<close>\<close>
  define c where "c = rnd 0.79"
  define a1 where "a1 = rnd (100 - o2)"
  define n2 where "n2 = rnd (a1 / 100)"
  define q where "q = rnd (n2 / c)"
  define s where "s = rnd (d + 10)"
  define m where "m = rnd (s * q)"
  define ead where "ead = rnd (m - 10)"
  have c: "\<bar>c - 79 / 100\<bar> \<le> eps"
    using close [of "0.79"] by (simp add: c_def)
  have a1: "\<bar>a1 - (100 - o2)\<bar> \<le> eps"
    unfolding a1_def using o2 by (intro close) simp
  have "\<bar>n2 - a1 / 100\<bar> \<le> eps"
    unfolding n2_def using a1 o2 eps by (intro close) simp
  then have n2: "\<bar>n2 - N\<bar> \<le> 2 * eps"
    using a1 eps N' by linarith
  have "\<bar>Q * (79 / 100 - c)\<bar> \<le> 1 * eps"
    using Q c by (intro abs_mult_le) auto
  moreover have "n2 - Q * c = (n2 - N) + Q * (79 / 100 - c)"
    by (simp add: NQ algebra_simps)
  ultimately have "\<bar>n2 - Q * c\<bar> \<le> 3 * eps"
    using n2 by linarith
  then have "\<bar>n2 / c - Q\<bar> \<le> 3 * eps / (78 / 100)"
    using c eps by (intro close_div) auto
  then have n2c: "\<bar>n2 / c - Q\<bar> \<le> 4 * eps"
    using eps by (simp add: field_simps)
  have "\<bar>q - n2 / c\<bar> \<le> eps"
    unfolding q_def using n2c Q eps by (intro close) linarith
  then have q: "\<bar>q - Q\<bar> \<le> 5 * eps"
    using n2c by linarith
  have s: "\<bar>s - S\<bar> \<le> eps"
    unfolding s_def S_def using d by (intro close) simp
  have "\<bar>s * q - S * Q\<bar> \<le> eps * 2 + 140 * (5 * eps)"
    using s q S Q eps by (intro close_mult) auto
  then have sq: "\<bar>s * q - M\<bar> \<le> 702 * eps"
    by (simp add: M_def)
  have "\<bar>m - s * q\<bar> \<le> eps"
    unfolding m_def using sq M eps by (intro close) linarith
  then have m: "\<bar>m - M\<bar> \<le> 703 * eps"
    using sq by linarith
  have "\<bar>ead - (m - 10)\<bar> \<le> eps"
    unfolding ead_def using m M eps by (intro close) linarith
  then have ead: "\<bar>ead + 10 - M\<bar> \<le> 704 * eps"
    using m by linarith
  have "c \<noteq> 0"
    using c eps by auto
  then have EAD: "calculateEAD rnd d o2 = Some ead"
    by (simp add: calculateEAD_def Let_def c_def a1_def n2_def q_def s_def m_def ead_def)
  \<comment> \<open>\<^verbatim>\<open>calculateActualDepthFromEAD\<close>\<close>
  define s' where "s' = rnd (ead + 10)"
  define m' where "m' = rnd (s' * c)"
  define p where "p = rnd (o2 / 100)"
  define w where "w = rnd (1 - p)"
  define q' where "q' = rnd (m' / w)"
  define r where "r = rnd (q' - 10)"
  have "\<bar>s' - (ead + 10)\<bar> \<le> eps"
    unfolding s'_def using ead M eps by (intro close) linarith
  then have s': "\<bar>s' - M\<bar> \<le> 705 * eps"
    using ead by linarith
  have "\<bar>s' * c - M * (79 / 100)\<bar> \<le> 705 * eps * 1 + 140 * eps"
    using s' c M eps by (intro close_mult) auto
  then have s'c: "\<bar>s' * c - M * (79 / 100)\<bar> \<le> 845 * eps"
    by simp
  have "\<bar>m' - s' * c\<bar> \<le> eps"
    unfolding m'_def using s'c M eps by (intro close) linarith
  then have m': "\<bar>m' - S * N\<bar> \<le> 846 * eps"
    using s'c unfolding SN by linarith
  have p: "\<bar>p - o2 / 100\<bar> \<le> eps"
    unfolding p_def using o2 by (intro close) simp
  have "\<bar>w - (1 - p)\<bar> \<le> eps"
    unfolding w_def using p o2 eps by (intro close) simp
  then have w: "\<bar>w - N\<bar> \<le> 2 * eps"
    using p N' by linarith
  then have w_low: "49 / 100 \<le> w"
    using N eps by linarith
  have "\<bar>S * (N - w)\<bar> \<le> 140 * (2 * eps)"
    using S w by (intro abs_mult_le) auto
  moreover have "m' - S * w = (m' - S * N) + S * (N - w)"
    by (simp add: algebra_simps)
  ultimately have "\<bar>m' - S * w\<bar> \<le> 1126 * eps"
    using m' by linarith
  then have "\<bar>m' / w - S\<bar> \<le> 1126 * eps / (49 / 100)"
    using w_low by (intro close_div) auto
  then have m'w: "\<bar>m' / w - S\<bar> \<le> 2300 * eps"
    using eps by (simp add: field_simps)
  have "\<bar>q' - m' / w\<bar> \<le> eps"
    unfolding q'_def using m'w S eps by (intro close) linarith
  then have q': "\<bar>q' - S\<bar> \<le> 2301 * eps"
    using m'w by linarith
  have "\<bar>r - (q' - 10)\<bar> \<le> eps"
    unfolding r_def using q' S eps by (intro close) linarith
  then have "\<bar>r - d\<bar> \<le> 2302 * eps"
    using q' unfolding S_def by linarith
  then have r: "\<bar>r - d\<bar> \<le> 1 / 10"
    using eps by linarith
  have "w \<noteq> 0"
    using w_low by auto
  then have "calculateActualDepthFromEAD rnd ead o2 = Some r"
    by (simp add: calculateActualDepthFromEAD_def Let_def c_def s'_def m'_def p_def w_def
        q'_def r_def)
  with EAD r show ?thesis by blast
qed

theorem calculateActualDepthFromEAD_inverts_calculateEAD_witness:
  "roundsToDouble (\<lambda>x. x) \<and> (0::real) \<le> 33 \<and> (33::real) \<le> 130 \<and> (21::real) \<le> 32
   \<and> (32::real) \<le> 50
   \<and> (\<exists>ead r. calculateEAD (\<lambda>x. x) 33 32 = Some ead
        \<and> calculateActualDepthFromEAD (\<lambda>x. x) ead 32 = Some r \<and> \<bar>r - 33\<bar> \<le> 1 / 10)"
proof -
  have h: "roundsToDouble (\<lambda>x. x)"
    by (auto simp add: roundsToDouble_def le_max_iff_disj)
  show ?thesis
    using h calculateActualDepthFromEAD_inverts_calculateEAD [OF h, of 33 32] by simp
qed

end
